theory Spec2Isabelle
  imports Main
begin

unbundle bit_operations_syntax

section \<open>Python values, exceptions and the few built-ins the code relies on\<close>

text \<open>
  Both source files are Python. A call that raises is modelled by a value
  \<open>Inl e\<close> of the sum type \<open>exn + 'a\<close>, a call that returns by \<open>Inr v\<close>.
  \<open>InteractionException\<close> carries the member of \<open>DefaultErrorEnum\<close> it was
  raised with and its message: the spec's \<open>SchemaError\<close> is the one raised with
  \<open>INCORRECT_COMMAND_DATA\<close>, its \<open>FormatError\<close> the one raised with
  \<open>INCORRECT_FORMAT\<close>. \<open>LibraryException\<close> carries its code and its optional
  message. \<open>Forbidden\<close> is \<open>discord.errors.Forbidden\<close>; \<open>OtherError\<close> stands
  for any other failure of the transport.
\<close>

datatype DefaultErrorEnum = INCORRECT_FORMAT | INCORRECT_COMMAND_DATA

datatype exn =
    TypeError
  | ValueError
  | KeyError
  | AttributeError
  | InteractionException DefaultErrorEnum string
  | LibraryException int "string option"
  | Forbidden
  | OtherError

fun is_SchemaError :: "exn \<Rightarrow> bool" where
  "is_SchemaError (InteractionException INCORRECT_COMMAND_DATA m) = True"
| "is_SchemaError e = False"

fun is_FormatError :: "exn \<Rightarrow> bool" where
  "is_FormatError (InteractionException INCORRECT_FORMAT m) = True"
| "is_FormatError e = False"

text \<open>Sequencing of two steps: the second runs only when the first returned.\<close>

definition and_then :: "exn + 'a \<Rightarrow> ('a \<Rightarrow> exn + 'b) \<Rightarrow> exn + 'b" where
  "and_then m f = (case m of Inl e \<Rightarrow> Inl e | Inr x \<Rightarrow> f x)"

text \<open>Untyped Python values, for dictionaries and attribute stores.\<close>

datatype pyval =
    PNone
  | PBool bool
  | PInt int
  | PStr string
  | PList "pyval list"
  | PDict "(string \<times> pyval) list"
  | PFunc string

text \<open>\<open>bool(x)\<close>, and \<open>x or y\<close>.\<close>

fun truthy :: "pyval \<Rightarrow> bool" where
  "truthy PNone = False"
| "truthy (PBool b) = b"
| "truthy (PInt i) = (i \<noteq> 0)"
| "truthy (PStr s) = (s \<noteq> [])"
| "truthy (PList xs) = (xs \<noteq> [])"
| "truthy (PDict kvs) = (kvs \<noteq> [])"
| "truthy (PFunc f) = True"

definition py_or :: "pyval \<Rightarrow> pyval \<Rightarrow> pyval" where
  "py_or x y = (if truthy x then x else y)"

text \<open>\<open>d[k]\<close> on a dictionary: \<open>KeyError\<close> when the key is absent.\<close>

definition getitem :: "(string \<rightharpoonup> pyval) \<Rightarrow> string \<Rightarrow> exn + pyval" where
  "getitem d k = (case d k of None \<Rightarrow> Inl KeyError | Some v \<Rightarrow> Inr v)"

text \<open>
  \<open>isinstance(obj, classinfo)\<close>: the second argument has to be a type. When it is
  any other object (the source passes \<open>None\<close>) the call raises \<open>TypeError\<close>,
  whatever \<open>obj\<close> is.
\<close>

datatype classinfo = TypeObject string | NotAType pyval

fun type_name :: "pyval \<Rightarrow> string" where
  "type_name PNone = ''NoneType''"
| "type_name (PBool b) = ''bool''"
| "type_name (PInt i) = ''int''"
| "type_name (PStr s) = ''str''"
| "type_name (PList xs) = ''list''"
| "type_name (PDict kvs) = ''dict''"
| "type_name (PFunc f) = ''function''"

fun isinstance :: "pyval \<Rightarrow> classinfo \<Rightarrow> exn + bool" where
  "isinstance v (NotAType c) = Inl TypeError"
| "isinstance v (TypeObject c) =
     Inr (type_name v = c \<or> (c = ''int'' \<and> type_name v = ''bool'') \<or> c = ''object'')"

text \<open>
  \<open>object.__init__(self, *args)\<close> called from a class that defines its own
  \<open>__init__\<close>: any extra argument raises \<open>TypeError\<close>.
\<close>

definition object_init :: "pyval list \<Rightarrow> exn + unit" where
  "object_init args = (if args = [] then Inr () else Inl TypeError)"

text \<open>
  An instance of a class with \<open>__slots__\<close> stores only the listed attributes:
  assigning any other name raises \<open>AttributeError\<close>, and the instance has no
  \<open>__dict__\<close> unless \<open>__dict__\<close> is itself a slot.
\<close>

definition setattr :: "string list \<Rightarrow> (string \<rightharpoonup> pyval) \<Rightarrow> string \<Rightarrow> pyval
    \<Rightarrow> exn + (string \<rightharpoonup> pyval)" where
  "setattr slots self k v =
     (if k \<in> set slots then Inr (self(k \<mapsto> v)) else Inl AttributeError)"

definition instance_dict :: "string list \<Rightarrow> 'a \<Rightarrow> exn + 'a" where
  "instance_dict slots self =
     (if ''__dict__'' \<in> set slots then Inr self else Inl AttributeError)"

text \<open>
  Unpacking a sequence into two targets, \<open>a, b = xs\<close>: \<open>ValueError\<close> unless
  \<open>xs\<close> has exactly two elements.
\<close>

fun unpack_two :: "'a list \<Rightarrow> exn + ('a \<times> 'a)" where
  "unpack_two [a, b] = Inr (a, b)"
| "unpack_two xs = Inl ValueError"

text \<open>
  \<open>xs is not []\<close>: the literal builds a new list, which no existing object is,
  so the test is true for every \<open>xs\<close>, the empty list included.
\<close>

definition is_not_new_list :: "'a list \<Rightarrow> bool" where
  "is_not_new_list xs = True"

text \<open>\<open>str.lower()\<close>, on the ASCII letters.\<close>

definition lower_char :: "char \<Rightarrow> char" where
  "lower_char c =
     (let n = (of_char c :: nat) in if 65 \<le> n \<and> n \<le> 90 then char_of (n + 32) else c)"

definition lower :: "string \<Rightarrow> string" where
  "lower s = map lower_char s"

text \<open>Calling a method on a value that may be \<open>None\<close>: \<open>None\<close> has no such attribute.\<close>

definition method_on :: "'a option \<Rightarrow> ('a \<Rightarrow> 'b) \<Rightarrow> exn + 'b" where
  "method_on obj f = (case obj of None \<Rightarrow> Inl AttributeError | Some x \<Rightarrow> Inr (f x))"

section \<open>dis\_interact/model.py: the command schema\<close>

subsection \<open>Command\<close>

text \<open>
  \<open>Command.__slots__\<close> as the class lists it; \<open>sub\<close> is annotated but is not
  a slot.
\<close>

definition Command_slots :: "string list" where
  "Command_slots =
     [''_type'', ''base'', ''group'', ''name'', ''description'', ''base_description'',
      ''group_description'', ''guild_ids'', ''options'', ''connector'', ''permissions'',
      ''default_permission'', ''has_description'', ''has_options'', ''has_subcommands'',
      ''has_permissions'', ''has_group'', ''cog'']"

definition of_str_option :: "string option \<Rightarrow> pyval" where
  "of_str_option x = (case x of None \<Rightarrow> PNone | Some s \<Rightarrow> PStr s)"

text \<open>\<open>x.lower() if not isinstance(x, None) else None\<close>, as lines 112 to 114 write it.\<close>

definition lower_if_not_isinstance_None :: "string option \<Rightarrow> exn + pyval" where
  "lower_if_not_isinstance_None x =
     and_then (isinstance (of_str_option x) (NotAType PNone)) (\<lambda>b.
       if \<not> b then and_then (method_on x lower) (\<lambda>s. Inr (PStr s)) else Inr PNone)"

text \<open>
  Lines 111 to 133 of \<open>Command.__init__\<close>, one attribute assignment after the
  other on the instance's attribute store.
\<close>

definition Command_body :: "string \<Rightarrow> (string \<rightharpoonup> pyval) \<Rightarrow> int \<Rightarrow> string option
    \<Rightarrow> string option \<Rightarrow> string option \<Rightarrow> exn + (string \<rightharpoonup> pyval)" where
  "Command_body name command cmd_type sub base group' =
     and_then (setattr Command_slots Map.empty ''_type'' (PInt cmd_type)) (\<lambda>self.
     and_then (lower_if_not_isinstance_None base) (\<lambda>b.
     and_then (setattr Command_slots self ''base'' b) (\<lambda>self.
     and_then (lower_if_not_isinstance_None sub) (\<lambda>s.
     and_then (setattr Command_slots self ''sub'' s) (\<lambda>self.
     and_then (lower_if_not_isinstance_None group') (\<lambda>g.
     and_then (setattr Command_slots self ''group'' g) (\<lambda>self.
     and_then (setattr Command_slots self ''name'' (PStr (lower name))) (\<lambda>self.
     and_then (getitem command ''description'') (\<lambda>description.
     and_then (setattr Command_slots self ''description'' description) (\<lambda>self.
     and_then (getitem command ''base_desc'') (\<lambda>base_description.
     and_then (setattr Command_slots self ''base_description'' base_description) (\<lambda>self.
     and_then (getitem command ''sub_group_desc'') (\<lambda>group_description.
     and_then (setattr Command_slots self ''group_description'' group_description) (\<lambda>self.
     and_then (getitem command ''guild_ids'') (\<lambda>guild_ids.
     and_then (setattr Command_slots self ''guild_ids'' (py_or guild_ids (PList []))) (\<lambda>self.
     and_then (getitem command ''api_options'') (\<lambda>api_options.
     and_then (setattr Command_slots self ''options'' (py_or api_options (PList []))) (\<lambda>self.
     and_then (getitem command ''connector'') (\<lambda>connector.
     and_then (setattr Command_slots self ''connector'' (py_or connector (PDict []))) (\<lambda>self.
     and_then (getitem command ''api_permissions'') (\<lambda>api_permissions.
     and_then (setattr Command_slots self ''permissions'' (py_or api_permissions (PDict []))) (\<lambda>self.
     and_then (getitem command ''default_permission'') (\<lambda>default_permission.
     and_then (setattr Command_slots self ''default_permission'' default_permission) (\<lambda>self.
     and_then (setattr Command_slots self ''has_description''
        (PBool (truthy description \<or> truthy base_description \<or> truthy group_description))) (\<lambda>self.
     and_then (setattr Command_slots self ''has_options''
        (PBool (truthy (py_or api_options (PList []))))) (\<lambda>self.
     and_then (getitem command ''has_subcommands'') (\<lambda>has_subcommands.
     and_then (setattr Command_slots self ''has_subcommands'' (PBool (truthy has_subcommands))) (\<lambda>self.
     and_then (setattr Command_slots self ''has_permissions''
        (PBool (truthy (py_or api_permissions (PDict []))))) (\<lambda>self.
     and_then (setattr Command_slots self ''has_group'' (PBool (truthy g))) (\<lambda>self.
     setattr Command_slots self ''cog'' PNone))))))))))))))))))))))))))))))"

text \<open>
  \<open>Command.__init__\<close>: line 110 looks \<open>func\<close> up in the declaration and hands
  it to \<open>super().__init__\<close>, which is \<open>object.__init__\<close> since \<open>Command\<close> has no
  base class; then the body above. The result is the attribute store of the new
  instance.
\<close>

definition Command_init :: "string \<Rightarrow> (string \<rightharpoonup> pyval) \<Rightarrow> int \<Rightarrow> string option
    \<Rightarrow> string option \<Rightarrow> string option \<Rightarrow> exn + (string \<rightharpoonup> pyval)" where
  "Command_init name command cmd_type sub base group' =
     and_then (getitem command ''func'') (\<lambda>func.
     and_then (object_init [func]) (\<lambda>u.
     Command_body name command cmd_type sub base group'))"

subsection \<open>BaseChoice, BaseOption, BaseCommand\<close>

datatype choice_value = VStr string | VInt int | VBool bool

datatype BaseChoice = BaseChoice (choice_name: string) (choice_value: choice_value)

datatype BaseOption = BaseOption
  (option_name: string)
  (option_description: string)
  (option_required: bool)
  (option_options: "BaseOption list")
  (option_choices: "BaseChoice list")

text \<open>
  The keyword dictionaries the constructors are called with (\<open>BaseOption(**option)\<close>,
  \<open>BaseChoice(**choice)\<close>). For \<open>required\<close>, \<open>options\<close> and \<open>choices\<close> an absent
  key is the parameter's default (\<open>False\<close>, \<open>[]\<close>, \<open>[]\<close>); \<open>decl_type\<close> is
  \<open>kwargs.get("type")\<close>, \<open>None\<close> when the key is absent.
\<close>

datatype choice_decl = ChoiceDecl (cdecl_name: string) (cdecl_value: choice_value)

datatype option_decl = OptionDecl
  (decl_name: string)
  (decl_description: string)
  (decl_required: bool)
  (decl_options: "option_decl list")
  (decl_choices: "choice_decl list")
  (decl_type: "int option")

definition BaseOption_slots :: "string list" where
  "BaseOption_slots = [''name'', ''description'', ''required'', ''options'', ''choices'']"

definition BaseChoice_slots :: "string list" where
  "BaseChoice_slots = [''name'', ''value'']"

definition BaseChoice_init :: "choice_decl \<Rightarrow> exn + BaseChoice" where
  "BaseChoice_init c = Inr (BaseChoice (cdecl_name c) (cdecl_value c))"

text \<open>
  The comprehension \<open>[self.choices.append(BaseChoice(**choice)) for choice in choices]\<close>:
  the constructed values in order, or the first exception.
\<close>

fun BaseChoice_init_all :: "choice_decl list \<Rightarrow> exn + BaseChoice list" where
  "BaseChoice_init_all [] = Inr []"
| "BaseChoice_init_all (c # cs) =
     (case BaseChoice_init c of
        Inl e \<Rightarrow> Inl e
      | Inr x \<Rightarrow> (case BaseChoice_init_all cs of Inl e \<Rightarrow> Inl e | Inr xs \<Rightarrow> Inr (x # xs)))"

text \<open>
  Lines 272 to 286 of \<open>BaseOption.__init__\<close>, from the two lists bound at line 271;
  \<open>BaseOption_init\<close> is the whole constructor, whose line 271 unpacks the empty
  list into the two attributes \<open>options\<close> and \<open>choices\<close>.
\<close>

fun BaseOption_init :: "option_decl \<Rightarrow> exn + BaseOption"
  and BaseOption_init_all :: "option_decl list \<Rightarrow> exn + BaseOption list"
  and BaseOption_body :: "option_decl \<Rightarrow> BaseOption list \<Rightarrow> BaseChoice list \<Rightarrow> exn + BaseOption"
where
  "BaseOption_init d =
     (case unpack_two ([] :: unit list) of
        Inl e \<Rightarrow> Inl e
      | Inr u \<Rightarrow> BaseOption_body d [] [])"
| "BaseOption_init_all [] = Inr []"
| "BaseOption_init_all (d # ds) =
     (case BaseOption_init d of
        Inl e \<Rightarrow> Inl e
      | Inr x \<Rightarrow> (case BaseOption_init_all ds of Inl e \<Rightarrow> Inl e | Inr xs \<Rightarrow> Inr (x # xs)))"
| "BaseOption_body (OptionDecl name description required options choices ty) self_options self_choices =
     (if ty = None then
        Inl (InteractionException INCORRECT_COMMAND_DATA ''Type is a required kwarg for options.'')
      else
        (case
           (if ty = Some 1 \<or> ty = Some 2 then
              (if is_not_new_list options then
                 (case BaseOption_init_all options of
                    Inl e \<Rightarrow> Inl e
                  | Inr new \<Rightarrow> Inr (self_options @ new))
               else if ty = Some 2 then
                 Inl (InteractionException INCORRECT_COMMAND_DATA
                        ''Options are required for subcommands/subcommand groups.'')
               else Inr self_options)
            else Inr self_options)
         of
           Inl e \<Rightarrow> Inl e
         | Inr self_options' \<Rightarrow>
             (case (if choices \<noteq> [] then
                      (case BaseChoice_init_all choices of
                         Inl e \<Rightarrow> Inl e
                       | Inr new \<Rightarrow> Inr (self_choices @ new))
                    else Inr self_choices)
              of
                Inl e \<Rightarrow> Inl e
              | Inr self_choices' \<Rightarrow>
                  Inr (BaseOption name description required self_options' self_choices'))))"

text \<open>
  \<open>BaseCommand\<close>. Its constructor appends one \<open>BaseOption\<close> per entry of
  \<open>options\<close>; the guard \<open>options is not []\<close> is always true.
\<close>

datatype BaseCommand = BaseCommand
  (command_name: string)
  (command_description: string)
  (command_options: "BaseOption list")
  (command_default_permission: "bool option")
  (command_id: "int option")
  (command_application_id: "int option")
  (command_version: "string option")

definition BaseCommand_init :: "string \<Rightarrow> string \<Rightarrow> option_decl list \<Rightarrow> bool option
    \<Rightarrow> int option \<Rightarrow> int option \<Rightarrow> string option \<Rightarrow> exn + BaseCommand" where
  "BaseCommand_init name description options default_permission ident application_id version =
     (if is_not_new_list options then
        (case BaseOption_init_all options of
           Inl e \<Rightarrow> Inl e
         | Inr new \<Rightarrow>
             Inr (BaseCommand name description ([] @ new) default_permission ident
                    application_id version))
      else Inr (BaseCommand name description [] default_permission ident application_id version))"

subsection \<open>Permissions\<close>

text \<open>
  \<open>BasePermission\<close>: \<open>id\<close>, \<open>_type\<close> (an \<open>IntEnum\<close>, which compares as the
  integer it is) and \<open>state\<close>. \<open>BaseGuildPermission\<close>: its constructor builds each
  entry of \<open>permissions\<close> as a \<open>BaseGuildPermission\<close> again.
\<close>

datatype BasePermission = BasePermission
  (permission_id: int)
  (permission_type: int)
  (permission_state: bool)

datatype BaseGuildPermission = BaseGuildPermission
  (guild_permission_id: int)
  (guild_permission_guild_id: int)
  (guild_permission_permissions: "BaseGuildPermission list")

subsection \<open>The \<open>__eq__\<close> methods\<close>

text \<open>
  The right operand of \<open>==\<close> can be any object; the \<open>isinstance\<close> test of each
  \<open>__eq__\<close> is the case distinction on its kind.
\<close>

datatype pyobj =
    ACommand BaseCommand
  | AnOption BaseOption
  | AChoice BaseChoice
  | APermission BasePermission
  | AGuildPermission BaseGuildPermission
  | AValue pyval

text \<open>
  \<open>xs == ys\<close> on two lists: false when the lengths differ; otherwise the
  elements are compared in order up to the first pair that differs. A pair that
  is one and the same object (\<open>x is y\<close>) counts as equal without its \<open>__eq__\<close>
  being called; any other pair is compared with \<open>__eq__\<close>, whose exception
  propagates. Values carry no identity, so which elements are the same object
  is the parameter \<open>same\<close>.
\<close>

fun list_eq :: "('a \<Rightarrow> 'a \<Rightarrow> bool) \<Rightarrow> ('a \<Rightarrow> 'a \<Rightarrow> exn + bool) \<Rightarrow> 'a list \<Rightarrow> 'a list
    \<Rightarrow> exn + bool" where
  "list_eq same eq [] [] = Inr True"
| "list_eq same eq (x # xs) (y # ys) =
     (if length xs \<noteq> length ys then Inr False
      else if same x y then list_eq same eq xs ys
      else (case eq x y of
              Inl e \<Rightarrow> Inl e
            | Inr b \<Rightarrow> if b then list_eq same eq xs ys else Inr False))"
| "list_eq same eq xs ys = Inr False"

text \<open>
  \<open>BaseOption.__eq__\<close> and \<open>BaseChoice.__eq__\<close>:
  \<open>isinstance(other, C) and self.__dict__ == other.__dict__\<close>. Both classes
  declare \<open>__slots__\<close>.
\<close>

definition BaseOption_eq :: "BaseOption \<Rightarrow> pyobj \<Rightarrow> exn + bool" where
  "BaseOption_eq self other =
     (case other of
        AnOption other' \<Rightarrow>
          and_then (instance_dict BaseOption_slots self) (\<lambda>d1.
          and_then (instance_dict BaseOption_slots other') (\<lambda>d2. Inr (d1 = d2)))
      | _ \<Rightarrow> Inr False)"

definition BaseChoice_eq :: "BaseChoice \<Rightarrow> pyobj \<Rightarrow> exn + bool" where
  "BaseChoice_eq self other =
     (case other of
        AChoice other' \<Rightarrow>
          and_then (instance_dict BaseChoice_slots self) (\<lambda>d1.
          and_then (instance_dict BaseChoice_slots other') (\<lambda>d2. Inr (d1 = d2)))
      | _ \<Rightarrow> Inr False)"

text \<open>
  \<open>BaseCommand.__eq__\<close>: name, description, options, default\_permission, joined
  by \<open>and\<close>, which stops at the first false operand. \<open>same\<close> tells which option
  objects of the two commands are one and the same object.
\<close>

definition BaseCommand_eq :: "(BaseOption \<Rightarrow> BaseOption \<Rightarrow> bool) \<Rightarrow> BaseCommand \<Rightarrow> pyobj
    \<Rightarrow> exn + bool" where
  "BaseCommand_eq same self other =
     (case other of
        ACommand other' \<Rightarrow>
          (if command_name self \<noteq> command_name other' then Inr False
           else if command_description self \<noteq> command_description other' then Inr False
           else and_then
                  (list_eq same (\<lambda>a b. BaseOption_eq a (AnOption b))
                     (command_options self) (command_options other'))
                  (\<lambda>b. if \<not> b then Inr False
                       else Inr (command_default_permission self = command_default_permission other')))
      | _ \<Rightarrow> Inr False)"

text \<open>
  \<open>BasePermission.__eq__\<close>, lines 364 to 375: the second conjunct compares
  \<open>self._type\<close> with \<open>other.id\<close>.
\<close>

definition BasePermission_eq :: "BasePermission \<Rightarrow> pyobj \<Rightarrow> bool" where
  "BasePermission_eq self other =
     (case other of
        APermission other' \<Rightarrow>
          permission_id self = permission_id other'
          \<and> permission_type self = permission_id other'
          \<and> permission_state self = permission_state other'
      | _ \<Rightarrow> False)"

text \<open>
  \<open>BaseGuildPermission.__eq__\<close>: id, guild\_id and the list of permissions. The
  comparison of an element with itself is true, so that the identity test of
  the list comparison changes no result here.
\<close>

fun guild_permission_same :: "BaseGuildPermission \<Rightarrow> BaseGuildPermission \<Rightarrow> bool"
  and guild_permissions_same :: "BaseGuildPermission list \<Rightarrow> BaseGuildPermission list \<Rightarrow> bool"
where
  "guild_permission_same (BaseGuildPermission i g ps) (BaseGuildPermission i' g' ps') =
     (i = i' \<and> g = g' \<and> guild_permissions_same ps ps')"
| "guild_permissions_same [] [] = True"
| "guild_permissions_same (p # ps) (q # qs) =
     (length ps = length qs \<and> guild_permission_same p q \<and> guild_permissions_same ps qs)"
| "guild_permissions_same (p # ps) [] = False"
| "guild_permissions_same [] (q # qs) = False"

definition BaseGuildPermission_eq :: "BaseGuildPermission \<Rightarrow> pyobj \<Rightarrow> bool" where
  "BaseGuildPermission_eq self other =
     (case other of
        AGuildPermission other' \<Rightarrow> guild_permission_same self other'
      | _ \<Rightarrow> False)"

section \<open>dis\_interact/model.py: Message\<close>

text \<open>
  The collaborators of \<open>Message\<close> come from discord.py and are seen through the
  one method the code calls on them: an \<open>Embed\<close> and an \<open>AllowedMentions\<close>
  through \<open>to_dict()\<close>, a \<open>File\<close> through \<open>close()\<close>. A \<open>Message\<close> keeps its
  id, the interaction token and, through \<open>_state\<close>, the client's default
  allowed mentions.
\<close>

datatype Embed = Embed (embed_to_dict: pyval)

datatype AllowedMentions = AllowedMentions (mentions_to_dict: pyval)

datatype File = File string

record Message =
  message_id :: int
  interaction_token :: int
  state_allowed_mentions :: "AllowedMentions option"

text \<open>
  The transport: \<open>super_delete\<close> is \<open>super().delete(delay=delay)\<close>, the
  channel-scoped delete of discord.py; \<open>http_delete\<close> is
  \<open>self._http.delete(token, id)\<close>, the interaction-token delete. Either returns
  or raises. \<open>mentions_merge\<close> is \<open>AllowedMentions.merge\<close>.
\<close>

record transport =
  super_delete :: "int option \<Rightarrow> exn + unit"
  http_delete :: "int \<Rightarrow> int \<Rightarrow> exn + pyval"
  mentions_merge :: "AllowedMentions \<Rightarrow> AllowedMentions option \<Rightarrow> AllowedMentions"

text \<open>
  Not under src/: the \<open>delete\<close> of discord.py's \<open>Message\<close>, which the class
  docstring names as the base and the docstring of \<open>delete\<close> refers to. Without
  a delay it awaits the channel-scoped request and lets its exception through.
  With any delay other than \<open>None\<close> it creates a task of its own, which sleeps,
  makes the request and passes over its failure, and returns at once.
  \<open>channel_delete\<close> is the outcome of the channel-scoped request.
\<close>

definition discord_Message_delete :: "exn + unit \<Rightarrow> int option \<Rightarrow> exn + unit" where
  "discord_Message_delete channel_delete delay =
     (case delay of None \<Rightarrow> channel_delete | Some d \<Rightarrow> Inr ())"

text \<open>
  What a call does besides returning is recorded as a list of events, in order.
  \<open>Wrap delay token id\<close> is the coroutine \<open>wrap()\<close> with the variables it closes
  over; \<open>CreateTask\<close> is \<open>self._state.loop.create_task\<close>.
\<close>

datatype task = Wrap "int option" int int

datatype event =
    SuperDelete "int option"
  | HttpDelete int int
  | CreateTask task
  | Sleep "int option"
  | Close File

fun is_HttpDelete :: "event \<Rightarrow> bool" where
  "is_HttpDelete (HttpDelete t m) = True"
| "is_HttpDelete e = False"

fun is_CreateTask :: "event \<Rightarrow> bool" where
  "is_CreateTask (CreateTask t) = True"
| "is_CreateTask e = False"

definition of_int_option :: "int option \<Rightarrow> pyval" where
  "of_int_option x = (case x of None \<Rightarrow> PNone | Some i \<Rightarrow> PInt i)"

text \<open>
  \<open>Message.delete\<close>, lines 525 to 550. Only \<open>Forbidden\<close> is caught; without a
  truthy \<open>delay\<close> the result of \<open>self._http.delete\<close> is returned, otherwise the
  task is created and the method returns \<open>None\<close>.
\<close>

definition delete :: "transport \<Rightarrow> Message \<Rightarrow> int option \<Rightarrow> event list \<times> (exn + pyval)" where
  "delete env self delay =
     (case super_delete env delay of
        Inr u \<Rightarrow> ([SuperDelete delay], Inr PNone)
      | Inl e \<Rightarrow>
          if e = Forbidden then
            (if \<not> truthy (of_int_option delay) then
               ([SuperDelete delay, HttpDelete (interaction_token self) (message_id self)],
                http_delete env (interaction_token self) (message_id self))
             else
               ([SuperDelete delay,
                 CreateTask (Wrap delay (interaction_token self) (message_id self))],
                Inr PNone))
          else ([SuperDelete delay], Inl e))"

text \<open>
  The body of \<open>wrap()\<close>, run by the event loop with the transport as it is then:
  sleep, then the interaction-token delete, inside \<open>suppress(Forbidden)\<close>.
\<close>

definition wrap :: "transport \<Rightarrow> task \<Rightarrow> event list \<times> (exn + pyval)" where
  "wrap env t =
     (case t of Wrap delay token mid \<Rightarrow>
        ([Sleep delay, HttpDelete token mid],
         (case http_delete env token mid of
            Inl e \<Rightarrow> if e = Forbidden then Inr PNone else Inl e
          | Inr v \<Rightarrow> Inr PNone)))"

text \<open>
  The keyword arguments of \<open>_slash_edit(**fields)\<close>: for each key, \<open>None\<close> when
  the key is absent and \<open>Some v\<close> when it is passed with value \<open>v\<close> (which may
  itself be Python's \<open>None\<close>). \<open>embeds\<close> may be \<open>None\<close>, a list, another
  sequence (a tuple), or a single \<open>Embed\<close> object.
\<close>

datatype embeds_value =
    NoEmbeds
  | EmbedList "Embed list"
  | EmbedTuple "Embed list"
  | EmbedObject Embed

record fields =
  field_content :: "string option option"
  field_components :: "pyval option"
  field_embed :: "Embed option option"
  field_embeds :: "embeds_value option"
  field_file :: "File option option"
  field_files :: "File list option option"
  field_allowed_mentions :: "AllowedMentions option option"
  field_delete_after :: "int option option"

text \<open>\<open>fields.get(k)\<close>: \<open>None\<close> for an absent key.\<close>

definition dict_get :: "'a option option \<Rightarrow> 'a option" where
  "dict_get x = (case x of None \<Rightarrow> None | Some v \<Rightarrow> v)"

text \<open>\<open>for embed in embeds\<close>: neither \<open>None\<close> nor an \<open>Embed\<close> object is iterable.\<close>

fun iterate :: "embeds_value \<Rightarrow> exn + Embed list" where
  "iterate NoEmbeds = Inl TypeError"
| "iterate (EmbedList es) = Inr es"
| "iterate (EmbedTuple es) = Inr es"
| "iterate (EmbedObject e) = Inl TypeError"

fun is_list :: "embeds_value \<Rightarrow> bool" where
  "is_list (EmbedList es) = True"
| "is_list v = False"

text \<open>Lines 508 to 519: the \<open>allowed_mentions\<close> entry of \<open>_response\<close>.\<close>

definition response_allowed_mentions :: "transport \<Rightarrow> Message \<Rightarrow> AllowedMentions option
    \<Rightarrow> exn + pyval" where
  "response_allowed_mentions env self allowed_mentions =
     (if allowed_mentions = None then
        (if state_allowed_mentions self = None then
           and_then
             (method_on (state_allowed_mentions self) (\<lambda>s. mentions_merge env s allowed_mentions))
             (\<lambda>m. Inr (mentions_to_dict m))
         else method_on allowed_mentions mentions_to_dict)
      else
        (if state_allowed_mentions self = None then
           method_on (state_allowed_mentions self) mentions_to_dict
         else Inr (PDict [])))"

text \<open>
  The \<open>else\<close> branch of \<open>_slash_edit\<close>, lines 490 to 523, run when none of the
  six subscripted keys is missing. The method returns \<open>None\<close>; the model returns
  the final value of the local dictionary \<open>_response\<close>, so that what the method
  built can be stated.
\<close>

definition slash_edit_else :: "transport \<Rightarrow> Message \<Rightarrow> string option \<Rightarrow> pyval \<Rightarrow> Embed option
    \<Rightarrow> embeds_value \<Rightarrow> File option \<Rightarrow> File list option \<Rightarrow> AllowedMentions option \<Rightarrow> int option
    \<Rightarrow> event list \<times> (exn + (string \<rightharpoonup> pyval))" where
  "slash_edit_else env self content components embed' embeds file files allowed_mentions delete_after =
     (let content' = (if content = None then Some ''None'' else None);
          response1 = Map.empty(''components'' \<mapsto> (if components = PNone then PList [] else components))
      in case iterate embeds of
           Inl e \<Rightarrow> ([], Inl e)
         | Inr es \<Rightarrow>
             (let response2 = response1(''embeds'' \<mapsto> PList (map embed_to_dict es));
                  response3 = response2(''embeds'' \<mapsto>
                    (case embed' of
                       None \<Rightarrow> PList []
                     | Some e \<Rightarrow>
                         if embeds = NoEmbeds then PList [embed_to_dict e]
                         else PList (map embed_to_dict es)));
                  files' = (case file of Some f \<Rightarrow> Some [f] | None \<Rightarrow> files)
              in if \<not> is_list embeds then
                   ([], Inl (InteractionException INCORRECT_FORMAT ''Provide a list of embeds.''))
                 else if length es > 10 then
                   ([], Inl (InteractionException INCORRECT_FORMAT
                               ''Do not provide more than 10 embeds.''))
                 else if files' \<noteq> None \<and> file \<noteq> None then
                   ([], Inl (InteractionException INCORRECT_FORMAT
                               ''You can't use both file and files kwargs at the same time.''))
                 else
                   (case response_allowed_mentions env self allowed_mentions of
                      Inl e \<Rightarrow> ([], Inl e)
                    | Inr am \<Rightarrow>
                        (let response4 = response3(''allowed_mentions'' \<mapsto> am);
                             (events, deleted) =
                               (if truthy (of_int_option delete_after)
                                then delete env self delete_after
                                else ([], Inr PNone))
                         in case deleted of
                              Inl e \<Rightarrow> (events, Inl e)
                            | Inr v \<Rightarrow>
                                (events @ (case files' of None \<Rightarrow> [] | Some fs \<Rightarrow> map Close fs),
                                 Inr response4)))))"

text \<open>
  \<open>Message._slash_edit\<close>: the \<open>try\<close> block subscripts \<open>fields\<close> with six keys; a
  \<open>KeyError\<close> is caught and passed over, and the method then ends with
  \<open>_response\<close> still empty.
\<close>

definition slash_edit :: "transport \<Rightarrow> Message \<Rightarrow> fields
    \<Rightarrow> event list \<times> (exn + (string \<rightharpoonup> pyval))" where
  "slash_edit env self fs =
     (case (field_content fs, field_components fs, field_embed fs, field_embeds fs,
            field_file fs, field_files fs) of
        (Some content, Some components, Some embed', Some embeds, Some file, Some files) \<Rightarrow>
          slash_edit_else env self content components embed' embeds file files
            (dict_get (field_allowed_mentions fs)) (dict_get (field_delete_after fs))
      | _ \<Rightarrow> ([], Inr Map.empty))"

section \<open>interactions/api/models/message.py: Message.edit\<close>

text \<open>
  The second \<open>Message\<close> class, of the \<open>interactions\<close> package. Its collaborators
  are seen through their \<open>_json\<close> attribute. An argument left out of a call has
  the sentinel \<open>MISSING\<close> as its value.
\<close>

datatype 'a arg = MISSING | Given 'a

datatype api_Embed = api_Embed (embed_json: pyval)

datatype Attachment = Attachment (attachment_json: pyval)

datatype api_File = api_File string

datatype MessageReference = MessageReference (reference_json: pyval)

datatype api_AllowedMentions = api_AllowedMentions (mentions_json: pyval)

datatype HTTPClient = HTTPClient string

datatype embeds_argument = EmbedsNone | OneEmbed api_Embed | ManyEmbeds "api_Embed list"

datatype files_argument = FilesNone | OneFile api_File | ManyFiles "api_File list"

datatype mentions_argument = MentionsObject api_AllowedMentions | MentionsValue pyval

record api_Message =
  msg_id :: int
  msg_channel_id :: int
  msg_content :: "string option"
  msg_attachments :: "Attachment list option"
  msg_embeds :: "api_Embed list option"
  msg_components :: pyval
  msg_flags :: "int option"
  msg_client :: "HTTPClient option"

record edit_arguments =
  arg_content :: "string option arg"
  arg_tts :: "bool option arg"
  arg_files :: "files_argument arg"
  arg_embeds :: "embeds_argument arg"
  arg_suppress_embeds :: "bool option arg"
  arg_allowed_mentions :: "mentions_argument arg"
  arg_message_reference :: "MessageReference option arg"
  arg_attachments :: "Attachment list option arg"
  arg_components :: "pyval arg"

text \<open>The dictionary built by \<open>dict(content=..., ..., flags=...)\<close>.\<close>

record payload =
  payload_content :: "string option"
  payload_tts :: "bool option"
  payload_attachments :: "pyval list"
  payload_embeds :: "pyval list"
  payload_allowed_mentions :: pyval
  payload_message_reference :: pyval
  payload_components :: pyval
  payload_flags :: "int option"

text \<open>
  What \<open>edit\<close> uses and the repository does not define under src/, taken as
  parameters: the flag \<open>MessageFlags.SUPPRESS_EMBEDS\<close> and its complement
  \<open>~MessageFlags.SUPPRESS_EMBEDS\<close>, which an \<open>IntFlag\<close> computes in its own way;
  the truth values of the
  \<open>MISSING\<close> sentinel, of an \<open>Embed\<close> and of a \<open>File\<close> object; the method
  \<open>File._json_payload\<close>; \<open>_build_components\<close>; the client's \<open>edit_message\<close>
  request; and \<open>Message.update\<close>.
\<close>

record api_env =
  SUPPRESS_EMBEDS :: int
  SUPPRESS_EMBEDS_complement :: int
  MISSING_truth :: bool
  Embed_truth :: "api_Embed \<Rightarrow> bool"
  File_truth :: "api_File \<Rightarrow> bool"
  json_payload :: "api_File \<Rightarrow> nat \<Rightarrow> pyval"
  build_components :: "pyval \<Rightarrow> exn + pyval"
  edit_message :: "int \<Rightarrow> int \<Rightarrow> payload \<Rightarrow> files_argument arg \<Rightarrow> exn + pyval"
  update :: "api_Message \<Rightarrow> pyval \<Rightarrow> api_Message"

datatype api_event = EditMessage int int payload "files_argument arg"

text \<open>Lines 922 to 926: \<open>_flags\<close>. \<open>|=\<close> and \<open>&=\<close> on \<open>None\<close> raise \<open>TypeError\<close>.\<close>

definition edit_flags :: "api_env \<Rightarrow> int option \<Rightarrow> bool option arg \<Rightarrow> exn + int option" where
  "edit_flags env flags suppress_embeds =
     (if suppress_embeds \<noteq> MISSING \<and> suppress_embeds = Given (Some True) then
        (case flags of None \<Rightarrow> Inl TypeError | Some f \<Rightarrow> Inr (Some (f OR SUPPRESS_EMBEDS env)))
      else if suppress_embeds \<noteq> MISSING then
        (case flags of
           None \<Rightarrow> Inl TypeError
         | Some f \<Rightarrow> Inr (Some (f AND SUPPRESS_EMBEDS_complement env)))
      else Inr flags)"

text \<open>Lines 933 to 938: \<open>_attachments\<close>; iterating \<open>self.attachments\<close> when it is \<open>None\<close> raises.\<close>

definition edit_attachments :: "api_Message \<Rightarrow> Attachment list option arg \<Rightarrow> exn + pyval list" where
  "edit_attachments self attachments =
     (case attachments of
        MISSING \<Rightarrow>
          (case msg_attachments self of
             None \<Rightarrow> Inl TypeError
           | Some xs \<Rightarrow> Inr (map attachment_json xs))
      | Given None \<Rightarrow> Inr []
      | Given (Some xs) \<Rightarrow> if xs = [] then Inr [] else Inr (map attachment_json xs))"

text \<open>
  Lines 940 to 946: \<open>_files\<close>, and \<open>files\<close> as it is passed on to the request
  (a single file is wrapped into a list).
\<close>

definition files_truth :: "api_env \<Rightarrow> files_argument arg \<Rightarrow> bool" where
  "files_truth env files =
     (case files of
        MISSING \<Rightarrow> MISSING_truth env
      | Given FilesNone \<Rightarrow> False
      | Given (OneFile f) \<Rightarrow> File_truth env f
      | Given (ManyFiles fs) \<Rightarrow> fs \<noteq> [])"

definition edit_files :: "api_env \<Rightarrow> files_argument arg \<Rightarrow> pyval list \<times> files_argument arg" where
  "edit_files env files =
     (if \<not> files_truth env files \<or> files = MISSING then ([], files)
      else (case files of
              Given (ManyFiles fs) \<Rightarrow> (map (\<lambda>(i, f). json_payload env f i) (enumerate 0 fs), files)
            | Given (OneFile f) \<Rightarrow> ([json_payload env f 0], Given (ManyFiles [f]))
            | _ \<Rightarrow> ([], files)))"

text \<open>
  Lines 950 to 956: \<open>_embeds\<close>. A missing argument is replaced by the stored
  \<open>self.embeds\<close> (a list, or \<open>None\<close>) before the truth test.
\<close>

definition edit_embeds :: "api_env \<Rightarrow> api_Message \<Rightarrow> embeds_argument arg \<Rightarrow> pyval list" where
  "edit_embeds env self embeds =
     (let embeds' =
            (case embeds of
               MISSING \<Rightarrow> (case msg_embeds self of None \<Rightarrow> EmbedsNone | Some es \<Rightarrow> ManyEmbeds es)
             | Given v \<Rightarrow> v)
      in case embeds' of
           EmbedsNone \<Rightarrow> []
         | ManyEmbeds es \<Rightarrow> if es \<noteq> [] then map embed_json es else []
         | OneEmbed e \<Rightarrow> if Embed_truth env e then [embed_json e] else [])"

text \<open>Lines 958 to 964: \<open>_allowed_mentions\<close>.\<close>

definition edit_allowed_mentions :: "mentions_argument arg \<Rightarrow> pyval" where
  "edit_allowed_mentions allowed_mentions =
     (case allowed_mentions of
        MISSING \<Rightarrow> PDict []
      | Given (MentionsObject m) \<Rightarrow> mentions_json m
      | Given (MentionsValue v) \<Rightarrow> v)"

text \<open>Line 965: \<open>_message_reference\<close>.\<close>

definition edit_message_reference :: "MessageReference option arg \<Rightarrow> exn + pyval" where
  "edit_message_reference message_reference =
     (case message_reference of
        MISSING \<Rightarrow> Inr (PDict [])
      | Given r \<Rightarrow> method_on r reference_json)"

text \<open>Lines 966 to 971: \<open>_components\<close>.\<close>

definition edit_components :: "api_env \<Rightarrow> api_Message \<Rightarrow> pyval arg \<Rightarrow> exn + pyval" where
  "edit_components env self components =
     (if \<not> (case components of MISSING \<Rightarrow> MISSING_truth env | Given c \<Rightarrow> truthy c) then
        Inr (PList [])
      else if components = MISSING then build_components env (msg_components self)
      else (case components of
              Given c \<Rightarrow> build_components env c
            | MISSING \<Rightarrow> build_components env (msg_components self)))"

text \<open>
  Lines 918 to 982 of \<open>Message.edit\<close>: the two guards, then the payload, with the
  \<open>files\<close> value that goes with it.
\<close>

definition edit_payload :: "api_env \<Rightarrow> api_Message \<Rightarrow> edit_arguments
    \<Rightarrow> exn + (payload \<times> files_argument arg)" where
  "edit_payload env self a =
     (if msg_client self = None then Inl (LibraryException 13 None)
      else if msg_flags self = Some 64 then
        Inl (LibraryException 12 (Some ''You cannot edit a hidden message!''))
      else
        and_then (edit_flags env (msg_flags self) (arg_suppress_embeds a)) (\<lambda>flags'.
        let content' = (case arg_content a of MISSING \<Rightarrow> msg_content self | Given c \<Rightarrow> c);
            tts' = (case arg_tts a of MISSING \<Rightarrow> Some False | Given t \<Rightarrow> t)
        in
        and_then (edit_attachments self (arg_attachments a)) (\<lambda>attachments'.
        let (files_json, files') = edit_files env (arg_files a);
            embeds' = edit_embeds env self (arg_embeds a);
            allowed_mentions' = edit_allowed_mentions (arg_allowed_mentions a)
        in
        and_then (edit_message_reference (arg_message_reference a)) (\<lambda>message_reference'.
        and_then (edit_components env self (arg_components a)) (\<lambda>components'.
        Inr (\<lparr> payload_content = content',
               payload_tts = tts',
               payload_attachments = files_json @ attachments',
               payload_embeds = embeds',
               payload_allowed_mentions = allowed_mentions',
               payload_message_reference = message_reference',
               payload_components = components',
               payload_flags = flags' \<rparr>,
             files'))))))"

text \<open>
  \<open>Message.edit\<close>: the payload is sent with \<open>self._client.edit_message\<close>, the
  message is updated from the answer and returned. The event list holds the
  requests made.
\<close>

definition edit :: "api_env \<Rightarrow> api_Message \<Rightarrow> edit_arguments
    \<Rightarrow> api_event list \<times> (exn + api_Message)" where
  "edit env self a =
     (case edit_payload env self a of
        Inl e \<Rightarrow> ([], Inl e)
      | Inr (p, files') \<Rightarrow>
          ([EditMessage (msg_channel_id self) (msg_id self) p files'],
           (case edit_message env (msg_channel_id self) (msg_id self) p files' of
              Inl e \<Rightarrow> Inl e
            | Inr dct \<Rightarrow> Inr (update env self dct))))"

section \<open>Observing a call\<close>

text \<open>
  Of the result of a call: the exception it raised, if any, and, for
  \<open>_slash_edit\<close>, the entry of the built \<open>_response\<close> under a key.
\<close>

definition raised :: "'e list \<times> (exn + 'a) \<Rightarrow> exn option" where
  "raised r = (case snd r of Inl e \<Rightarrow> Some e | Inr v \<Rightarrow> None)"

definition response_entry :: "'e list \<times> (exn + (string \<rightharpoonup> pyval)) \<Rightarrow> string \<Rightarrow> pyval option" where
  "response_entry r k = (case snd r of Inl e \<Rightarrow> None | Inr response \<Rightarrow> response k)"

section \<open>Concrete inputs\<close>

text \<open>
  Transports, messages and arguments at which the results below are evaluated.
  In \<open>refusing_transport\<close> the base class is discord.py's, the channel-scoped
  request is refused with \<open>Forbidden\<close> and the interaction-token delete answers.
\<close>

definition refusing_transport :: transport where
  "refusing_transport =
     \<lparr> super_delete = discord_Message_delete (Inl Forbidden),
       http_delete = (\<lambda>token mid. Inr (PInt 204)),
       mentions_merge = (\<lambda>a b. a) \<rparr>"

definition sample_message :: Message where
  "sample_message =
     \<lparr> message_id = 42, interaction_token = 7,
       state_allowed_mentions = Some (AllowedMentions (PDict [(''parse'', PList [PStr ''users''])])) \<rparr>"

definition sample_fields :: fields where
  "sample_fields =
     \<lparr> field_content = Some (Some ''hello''),
       field_components = Some PNone,
       field_embed = Some None,
       field_embeds = Some (EmbedList []),
       field_file = Some None,
       field_files = Some None,
       field_allowed_mentions = Some (Some (AllowedMentions (PDict [(''parse'', PList [])]))),
       field_delete_after = None \<rparr>"

definition file_and_files_only :: fields where
  "file_and_files_only =
     \<lparr> field_content = None,
       field_components = None,
       field_embed = None,
       field_embeds = None,
       field_file = Some (Some (File ''a.png'')),
       field_files = Some (Some [File ''b.png'']),
       field_allowed_mentions = None,
       field_delete_after = None \<rparr>"

definition sample_env :: api_env where
  "sample_env =
     \<lparr> SUPPRESS_EMBEDS = 4,
       SUPPRESS_EMBEDS_complement = 507,
       MISSING_truth = False,
       Embed_truth = (\<lambda>e. True),
       File_truth = (\<lambda>f. True),
       json_payload = (\<lambda>f i. PInt (int i)),
       build_components = (\<lambda>c. Inr c),
       edit_message = (\<lambda>channel_id message_id p files. Inr PNone),
       update = (\<lambda>self dct. self) \<rparr>"

definition sample_api_message :: api_Message where
  "sample_api_message =
     \<lparr> msg_id = 42, msg_channel_id = 9,
       msg_content = Some ''hello'',
       msg_attachments = Some [],
       msg_embeds = Some [api_Embed (PDict [(''title'', PStr ''t'')])],
       msg_components = PNone,
       msg_flags = Some 0,
       msg_client = Some (HTTPClient ''client'') \<rparr>"

definition no_arguments :: edit_arguments where
  "no_arguments =
     \<lparr> arg_content = MISSING, arg_tts = MISSING, arg_files = MISSING, arg_embeds = MISSING,
       arg_suppress_embeds = MISSING, arg_allowed_mentions = MISSING,
       arg_message_reference = MISSING, arg_attachments = MISSING, arg_components = MISSING \<rparr>"

section \<open>Results on the command schema\<close>

subsection \<open>Option construction\<close>

lemma BaseOption_init_raises: "BaseOption_init d = Inl ValueError"
  by simp

lemma BaseOption_init_all_raises: "ds \<noteq> [] \<Longrightarrow> BaseOption_init_all ds = Inl ValueError"
  by (cases ds) simp_all

text \<open>
  Past line 271 the guard of line 279 is always true, so the \<open>elif\<close> of line 281
  is never reached: from empty attribute lists a subcommand group without options
  is accepted.
\<close>

lemma BaseOption_body_group_without_options:
  "BaseOption_body (OptionDecl n d r [] [] (Some 2)) [] [] = Inr (BaseOption n d r [] [])"
  by (simp add: is_not_new_list_def)

lemma BaseOption_body_no_type:
  "BaseOption_body (OptionDecl n d r os cs None) so sc =
     Inl (InteractionException INCORRECT_COMMAND_DATA ''Type is a required kwarg for options.'')"
  by simp

text \<open>
  C1. Claimed: construction of an Option fails with \<open>SchemaError\<close> exactly when
  \<open>type\<close> is absent or \<open>type\<close> is \<open>SUBCOMMAND_GROUP\<close> with empty \<open>options\<close>,
  and succeeds for every other declaration. The code: the well-formed declaration
  \<open>{name: "count", description: "how many", type: 4, required: True}\<close> raises
  \<open>ValueError\<close> at line 271, the declaration without \<open>type\<close> raises the same
  \<open>ValueError\<close> and no \<open>SchemaError\<close>, and so does the subcommand group without
  options.
\<close>

theorem C1_option_construction_raises_ValueError:
  "BaseOption_init (OptionDecl ''count'' ''how many'' True [] [] (Some 4)) = Inl ValueError
   \<and> BaseOption_init (OptionDecl ''count'' ''how many'' False [] [] None) = Inl ValueError
   \<and> BaseOption_init (OptionDecl ''count'' ''how many'' False [] [] (Some 2)) = Inl ValueError
   \<and> \<not> is_SchemaError ValueError"
  by (simp add: BaseOption_init_raises)

subsection \<open>Command construction\<close>

lemma lower_if_not_isinstance_None_raises: "lower_if_not_isinstance_None x = Inl TypeError"
  by (simp add: lower_if_not_isinstance_None_def and_then_def)

lemma Command_body_raises: "Command_body name command ty sub base grp = Inl TypeError"
  by (simp add: Command_body_def and_then_def setattr_def Command_slots_def
      lower_if_not_isinstance_None_raises)

lemma Command_init_raises:
  "Command_init name command ty sub base grp =
     Inl (if command ''func'' = None then KeyError else TypeError)"
  by (simp add: Command_init_def and_then_def getitem_def object_init_def split: option.splits)

lemma sub_not_a_slot: "setattr Command_slots self ''sub'' v = Inl AttributeError"
  by (simp add: setattr_def Command_slots_def)

text \<open>
  C8. Claimed: every Command construction stores \<open>name\<close> and, when present,
  \<open>base\<close>, \<open>sub\<close> and \<open>group\<close> in lowercase, and \<open>None\<close> for the absent ones.
  The code: \<open>Command("Ping", command)\<close> with a complete declaration raises
  \<open>TypeError\<close> at line 110 and stores nothing.
\<close>

theorem C8_Command_construction_raises_TypeError:
  "Command_init ''Ping''
     (map_of [(''func'', PFunc ''ping''), (''description'', PStr ''Pong''),
              (''base_desc'', PNone), (''sub_group_desc'', PNone), (''guild_ids'', PNone),
              (''api_options'', PList []), (''connector'', PNone), (''api_permissions'', PNone),
              (''default_permission'', PBool True), (''has_subcommands'', PBool False)])
     1 None None None
   = Inl TypeError"
  by (simp add: Command_init_raises)

subsection \<open>Equality\<close>

lemma eq_other_kind:
  "BaseCommand_eq same c (AnOption o1) = Inr False"
  "BaseCommand_eq same c (AChoice c1) = Inr False"
  "BaseCommand_eq same c (APermission p1) = Inr False"
  "BaseCommand_eq same c (AGuildPermission g1) = Inr False"
  "BaseCommand_eq same c (AValue v) = Inr False"
  "BaseOption_eq o2 (ACommand c2) = Inr False"
  "BaseOption_eq o2 (AChoice c1) = Inr False"
  "BaseOption_eq o2 (APermission p1) = Inr False"
  "BaseOption_eq o2 (AGuildPermission g1) = Inr False"
  "BaseOption_eq o2 (AValue v) = Inr False"
  "BaseChoice_eq c3 (ACommand c2) = Inr False"
  "BaseChoice_eq c3 (AnOption o1) = Inr False"
  "BaseChoice_eq c3 (APermission p1) = Inr False"
  "BaseChoice_eq c3 (AGuildPermission g1) = Inr False"
  "BaseChoice_eq c3 (AValue v) = Inr False"
  "BasePermission_eq p (ACommand c2) = False"
  "BasePermission_eq p (AnOption o1) = False"
  "BasePermission_eq p (AChoice c1) = False"
  "BasePermission_eq p (AGuildPermission g1) = False"
  "BasePermission_eq p (AValue v) = False"
  "BaseGuildPermission_eq g (ACommand c2) = False"
  "BaseGuildPermission_eq g (AnOption o1) = False"
  "BaseGuildPermission_eq g (AChoice c1) = False"
  "BaseGuildPermission_eq g (APermission p1) = False"
  "BaseGuildPermission_eq g (AValue v) = False"
  by (simp_all add: BaseCommand_eq_def BaseOption_eq_def BaseChoice_eq_def
      BasePermission_eq_def BaseGuildPermission_eq_def)

lemma BaseChoice_eq_raises: "BaseChoice_eq a (AChoice b) = Inl AttributeError"
  by (simp add: BaseChoice_eq_def instance_dict_def BaseChoice_slots_def and_then_def)

lemma BaseOption_eq_raises: "BaseOption_eq a (AnOption b) = Inl AttributeError"
  by (simp add: BaseOption_eq_def instance_dict_def BaseOption_slots_def and_then_def)

lemma BasePermission_eq_iff:
  "BasePermission_eq p (APermission q) \<longleftrightarrow>
     permission_id p = permission_id q \<and> permission_type p = permission_id q
     \<and> permission_state p = permission_state q"
  by (simp add: BasePermission_eq_def)

text \<open>
  C4. Claimed: structural equality of the value entities is reflexive and
  symmetric, compares nested sequences in order, and is false across kinds.
  The code: the permission \<open>BasePermission(id=7, _type=2, state=False)\<close> is not
  equal to itself; \<open>BasePermission(2, 2, True) == BasePermission(2, 1, True)\<close> is
  true while the comparison the other way round is false; and
  \<open>BaseChoice("a", 1) == BaseChoice("a", 1)\<close> raises \<open>AttributeError\<close> instead of
  returning a truth value.
\<close>

theorem C4_equality_neither_reflexive_nor_symmetric:
  "BasePermission_eq (BasePermission 7 2 False) (APermission (BasePermission 7 2 False)) = False
   \<and> BasePermission_eq (BasePermission 2 2 True) (APermission (BasePermission 2 1 True)) = True
   \<and> BasePermission_eq (BasePermission 2 1 True) (APermission (BasePermission 2 2 True)) = False
   \<and> BaseChoice_eq (BaseChoice ''a'' (VInt 1)) (AChoice (BaseChoice ''a'' (VInt 1)))
       = Inl AttributeError"
  by (simp add: BasePermission_eq_iff BaseChoice_eq_raises)

text \<open>
  C9. Claimed: two PermissionOverride values are equal exactly when their ids,
  their kinds and their states are equal. The code: two permissions built as
  \<open>BasePermission(id=5, _type=1, state=True)\<close> agree on the three fields and
  compare unequal; \<open>BasePermission(1, 1, True)\<close> and \<open>BasePermission(1, 2, True)\<close>
  differ in kind and compare equal.
\<close>

theorem C9_permission_equality_compares_type_with_id:
  "BasePermission_eq (BasePermission 5 1 True) (APermission (BasePermission 5 1 True)) = False
   \<and> BasePermission_eq (BasePermission 1 1 True) (APermission (BasePermission 1 2 True)) = True"
  by (simp add: BasePermission_eq_iff)

section \<open>Results on Message.delete\<close>

text \<open>
  C2. When \<open>delete\<close> is called without a delay and the channel-scoped delete
  raises \<open>Forbidden\<close>, the call makes exactly one interaction-token delete, with
  the stored token and the message id, creates no task, and returns (or raises)
  what that delete returned (or raised).
\<close>

theorem C2_immediate_fallback_on_Forbidden:
  assumes "super_delete env None = Inl Forbidden"
  shows "delete env self None =
           ([SuperDelete None, HttpDelete (interaction_token self) (message_id self)],
            http_delete env (interaction_token self) (message_id self))
         \<and> length (filter is_HttpDelete (fst (delete env self None))) = 1
         \<and> filter is_CreateTask (fst (delete env self None)) = []"
  using assms by (simp add: delete_def of_int_option_def)

theorem C2_immediate_fallback_on_Forbidden_witness:
  "super_delete refusing_transport None = Inl Forbidden
   \<and> delete refusing_transport sample_message None
       = ([SuperDelete None, HttpDelete 7 42], Inr (PInt 204))"
  using C2_immediate_fallback_on_Forbidden [of refusing_transport sample_message]
  by (simp add: refusing_transport_def sample_message_def discord_Message_delete_def)

lemma delete_with_delay_on_discord_base:
  "super_delete env = discord_Message_delete channel_delete \<Longrightarrow>
     delete env self (Some d) = ([SuperDelete (Some d)], Inr PNone)"
  by (simp add: delete_def discord_Message_delete_def)

lemma delete_on_discord_base_creates_no_task:
  "super_delete env = discord_Message_delete channel_delete \<Longrightarrow>
     filter is_CreateTask (fst (delete env self delay)) = []"
  by (cases delay)
     (auto simp: delete_def discord_Message_delete_def of_int_option_def split: sum.splits)

lemma wrap_passes_over_Forbidden:
  "http_delete env token mid = Inl Forbidden \<Longrightarrow>
     wrap env (Wrap delay token mid) = ([Sleep delay, HttpDelete token mid], Inr PNone)"
  by (simp add: wrap_def)

text \<open>
  C3. Claimed: when \<open>delete\<close> is called with a delay and the channel-scoped
  attempt is refused with \<open>Forbidden\<close>, a task is scheduled that sleeps for the
  delay and then attempts the interaction-token delete, whose \<open>Forbidden\<close> is
  swallowed. The code: line 534 hands the delay to the base class, which defers
  the channel-scoped attempt and passes over its failure itself, so the
  \<open>except Forbidden\<close> branch is not entered: \<open>delete(delay=5)\<close> on a message whose
  channel-scoped delete is refused returns \<open>None\<close> after that one call, creates no
  \<open>wrap()\<close> task and never attempts the interaction-token delete.
\<close>

theorem C3_delay_never_reaches_the_fallback:
  "super_delete refusing_transport None = Inl Forbidden
   \<and> delete refusing_transport sample_message (Some 5) = ([SuperDelete (Some 5)], Inr PNone)
   \<and> filter is_CreateTask (fst (delete refusing_transport sample_message (Some 5))) = []
   \<and> filter is_HttpDelete (fst (delete refusing_transport sample_message (Some 5))) = []"
  by (simp add: delete_def refusing_transport_def discord_Message_delete_def)

section \<open>Results on Message.\_slash\_edit\<close>

lemma response_allowed_mentions_cases:
  "response_allowed_mentions env self allowed_mentions =
     (if allowed_mentions \<noteq> None \<and> state_allowed_mentions self \<noteq> None then Inr (PDict [])
      else Inl AttributeError)"
  by (simp add: response_allowed_mentions_def method_on_def and_then_def)

text \<open>
  C6. Claimed: the \<open>allowed_mentions\<close> entry of the payload is the caller's value
  when one is supplied and the merge with the client's default otherwise. The
  code: with \<open>AllowedMentions\<close> supplied (its \<open>to_dict()\<close> is \<open>{"parse": []}\<close>) and
  a default configured, the entry is the empty dictionary; with none supplied
  the call raises \<open>AttributeError\<close>, whether a default is configured or not.
\<close>

theorem C6_allowed_mentions_not_resolved:
  "dict_get (field_allowed_mentions sample_fields)
       = Some (AllowedMentions (PDict [(''parse'', PList [])]))
   \<and> raised (slash_edit refusing_transport sample_message sample_fields) = None
   \<and> response_entry (slash_edit refusing_transport sample_message sample_fields)
        ''allowed_mentions'' = Some (PDict [])
   \<and> raised (slash_edit refusing_transport sample_message
        (sample_fields\<lparr>field_allowed_mentions := None\<rparr>)) = Some AttributeError
   \<and> raised (slash_edit refusing_transport (sample_message\<lparr>state_allowed_mentions := None\<rparr>)
        (sample_fields\<lparr>field_allowed_mentions := None\<rparr>)) = Some AttributeError"
  by (simp add: slash_edit_def slash_edit_else_def sample_fields_def sample_message_def
      refusing_transport_def response_allowed_mentions_cases dict_get_def
      of_int_option_def raised_def response_entry_def)

lemma slash_edit_file_and_files:
  assumes "field_content fs = Some content" and "field_components fs = Some components"
    and "field_embed fs = Some e" and "field_embeds fs = Some embeds"
    and "iterate embeds = Inr es"
    and "field_file fs = Some (Some f)" and "field_files fs = Some (Some g)"
  shows "\<exists>m. slash_edit env self fs = ([], Inl (InteractionException INCORRECT_FORMAT m))"
  using assms by (simp add: slash_edit_def slash_edit_else_def Let_def)

lemma slash_edit_missing_key:
  "field_content fs = None \<or> field_components fs = None \<or> field_embed fs = None
   \<or> field_embeds fs = None \<or> field_file fs = None \<or> field_files fs = None \<Longrightarrow>
     slash_edit env self fs = ([], Inr Map.empty)"
  by (auto simp: slash_edit_def split: option.splits)

text \<open>
  C7. Claimed: every edit call in which both \<open>file\<close> and \<open>files\<close> are supplied
  fails with \<open>FormatError\<close>. The code: \<open>_slash_edit(file=a, files=[b])\<close>, with no
  \<open>content\<close> among the fields, returns without raising anything, the \<open>KeyError\<close>
  of line 479 being passed over; and with all six keys present but \<open>embeds\<close>
  \<open>None\<close> or a single \<open>Embed\<close>, line 492 raises \<open>TypeError\<close> before the check of
  lines 502 to 506 is reached.
\<close>

theorem C7_file_and_files_without_FormatError:
  "field_file file_and_files_only = Some (Some (File ''a.png''))
   \<and> field_files file_and_files_only = Some (Some [File ''b.png''])
   \<and> raised (slash_edit refusing_transport sample_message file_and_files_only) = None
   \<and> fst (slash_edit refusing_transport sample_message file_and_files_only) = []
   \<and> raised (slash_edit refusing_transport sample_message
        (sample_fields\<lparr>field_embeds := Some NoEmbeds,
                        field_file := Some (Some (File ''a.png'')),
                        field_files := Some (Some [File ''b.png''])\<rparr>)) = Some TypeError
   \<and> raised (slash_edit refusing_transport sample_message
        (sample_fields\<lparr>field_embeds := Some (EmbedObject (Embed (PDict []))),
                        field_file := Some (Some (File ''a.png'')),
                        field_files := Some (Some [File ''b.png''])\<rparr>)) = Some TypeError"
  by (simp add: slash_edit_def slash_edit_else_def file_and_files_only_def sample_fields_def
      raised_def)

section \<open>Results on Message.edit\<close>

lemma edit_payload_embeds:
  "edit_payload env self a = Inr (p, fs) \<Longrightarrow> payload_embeds p = edit_embeds env self (arg_embeds a)"
  by (auto simp: edit_payload_def and_then_def Let_def split: if_splits sum.splits prod.splits)

lemma edit_sends_the_payload:
  "edit_payload env self a = Inr (p, fs) \<Longrightarrow>
     fst (edit env self a) = [EditMessage (msg_channel_id self) (msg_id self) p fs]"
  by (simp add: edit_def)

lemma edit_flags_returns:
  "suppress_embeds = MISSING \<or> flags \<noteq> None \<Longrightarrow> \<exists>x. edit_flags env flags suppress_embeds = Inr x"
  by (auto simp: edit_flags_def split: option.splits)

lemma edit_attachments_returns:
  "attachments \<noteq> MISSING \<or> msg_attachments self \<noteq> None \<Longrightarrow>
     \<exists>x. edit_attachments self attachments = Inr x"
  by (auto simp: edit_attachments_def split: arg.splits option.splits)

lemma edit_message_reference_returns:
  "message_reference \<noteq> Given None \<Longrightarrow> \<exists>x. edit_message_reference message_reference = Inr x"
  by (auto simp: edit_message_reference_def method_on_def split: arg.splits option.splits)

lemma edit_payload_returns:
  assumes "msg_client self \<noteq> None" and "msg_flags self \<noteq> Some 64"
    and "arg_suppress_embeds a = MISSING \<or> msg_flags self \<noteq> None"
    and "arg_attachments a \<noteq> MISSING \<or> msg_attachments self \<noteq> None"
    and "arg_message_reference a \<noteq> Given None"
    and "edit_components env self (arg_components a) = Inr c"
  shows "\<exists>p fs. edit_payload env self a = Inr (p, fs)
           \<and> payload_embeds p = edit_embeds env self (arg_embeds a)"
proof -
  obtain fl where fl: "edit_flags env (msg_flags self) (arg_suppress_embeds a) = Inr fl"
    using edit_flags_returns [OF assms(3)] by blast
  obtain at where at: "edit_attachments self (arg_attachments a) = Inr at"
    using edit_attachments_returns [OF assms(4)] by blast
  obtain mr where mr: "edit_message_reference (arg_message_reference a) = Inr mr"
    using edit_message_reference_returns [OF assms(5)] by blast
  show ?thesis
    using assms(1,2,6) fl at mr
    by (simp add: edit_payload_def and_then_def Let_def split: prod.splits)
qed

text \<open>
  C5, as claimed, for every message: on a message without a client, \<open>edit\<close>
  called without \<open>embeds\<close> raises at line 919 and builds no payload.
\<close>

theorem C5_no_client_counterexample:
  "arg_embeds no_arguments = MISSING
   \<and> edit_payload sample_env (sample_api_message\<lparr>msg_client := None\<rparr>) no_arguments
       = Inl (LibraryException 13 None)
   \<and> fst (edit sample_env (sample_api_message\<lparr>msg_client := None\<rparr>) no_arguments) = []"
  by (simp add: edit_def edit_payload_def sample_api_message_def no_arguments_def)

text \<open>
  C5, amended. For every message that has a client and whose flags are not 64,
  and every call of \<open>edit\<close> whose other entries are built without error (the
  stored flags are not \<open>None\<close> when \<open>suppress_embeds\<close> is passed, the stored
  attachments are not \<open>None\<close> when \<open>attachments\<close> is not passed, a passed
  \<open>message_reference\<close> is not \<open>None\<close>, and the components are built): called
  without \<open>embeds\<close>, \<open>edit\<close> builds and sends a payload whose embeds are the
  stored embeds of the message, each as its \<open>_json\<close>, in order (none when the
  message stores \<open>None\<close>); called with \<open>embeds=[]\<close>, it builds and sends a payload
  whose embeds are the empty list.
\<close>

theorem C5_edit_keeps_or_clears_embeds:
  assumes "msg_client self \<noteq> None" and "msg_flags self \<noteq> Some 64"
    and "arg_suppress_embeds a = MISSING \<or> msg_flags self \<noteq> None"
    and "arg_attachments a \<noteq> MISSING \<or> msg_attachments self \<noteq> None"
    and "arg_message_reference a \<noteq> Given None"
    and "edit_components env self (arg_components a) = Inr c"
  shows "(\<exists>p fs. edit_payload env self (a\<lparr>arg_embeds := MISSING\<rparr>) = Inr (p, fs)
            \<and> fst (edit env self (a\<lparr>arg_embeds := MISSING\<rparr>))
                = [EditMessage (msg_channel_id self) (msg_id self) p fs]
            \<and> payload_embeds p
                = map embed_json (case msg_embeds self of None \<Rightarrow> [] | Some es \<Rightarrow> es))
         \<and> (\<exists>p fs. edit_payload env self (a\<lparr>arg_embeds := Given (ManyEmbeds [])\<rparr>) = Inr (p, fs)
            \<and> fst (edit env self (a\<lparr>arg_embeds := Given (ManyEmbeds [])\<rparr>))
                = [EditMessage (msg_channel_id self) (msg_id self) p fs]
            \<and> payload_embeds p = [])"
proof (intro conjI)
  let ?a = "a\<lparr>arg_embeds := MISSING\<rparr>"
  obtain p fs where p: "edit_payload env self ?a = Inr (p, fs)"
      and e: "payload_embeds p = edit_embeds env self (arg_embeds ?a)"
    using edit_payload_returns [of self ?a env c] assms by auto
  have "edit_embeds env self (arg_embeds ?a)
          = map embed_json (case msg_embeds self of None \<Rightarrow> [] | Some es \<Rightarrow> es)"
    by (simp add: edit_embeds_def split: option.splits)
  with p e edit_sends_the_payload [OF p]
  show "\<exists>p fs. edit_payload env self ?a = Inr (p, fs)
          \<and> fst (edit env self ?a) = [EditMessage (msg_channel_id self) (msg_id self) p fs]
          \<and> payload_embeds p
              = map embed_json (case msg_embeds self of None \<Rightarrow> [] | Some es \<Rightarrow> es)"
    by auto
next
  let ?a = "a\<lparr>arg_embeds := Given (ManyEmbeds [])\<rparr>"
  obtain p fs where p: "edit_payload env self ?a = Inr (p, fs)"
      and e: "payload_embeds p = edit_embeds env self (arg_embeds ?a)"
    using edit_payload_returns [of self ?a env c] assms by auto
  have "edit_embeds env self (arg_embeds ?a) = []"
    by (simp add: edit_embeds_def)
  with p e edit_sends_the_payload [OF p]
  show "\<exists>p fs. edit_payload env self ?a = Inr (p, fs)
          \<and> fst (edit env self ?a) = [EditMessage (msg_channel_id self) (msg_id self) p fs]
          \<and> payload_embeds p = []"
    by auto
qed

theorem C5_edit_keeps_or_clears_embeds_witness:
  "msg_client sample_api_message = Some (HTTPClient ''client'')
   \<and> msg_flags sample_api_message = Some 0
   \<and> arg_suppress_embeds no_arguments = MISSING
   \<and> msg_attachments sample_api_message = Some []
   \<and> arg_message_reference no_arguments = MISSING
   \<and> edit_components sample_env sample_api_message (arg_components no_arguments) = Inr (PList [])
   \<and> msg_embeds sample_api_message = Some [api_Embed (PDict [(''title'', PStr ''t'')])]
   \<and> edit_payload sample_env sample_api_message (no_arguments\<lparr>arg_embeds := MISSING\<rparr>)
     = Inr (\<lparr> payload_content = Some ''hello'', payload_tts = Some False,
             payload_attachments = [], payload_embeds = [PDict [(''title'', PStr ''t'')]],
             payload_allowed_mentions = PDict [], payload_message_reference = PDict [],
             payload_components = PList [], payload_flags = Some 0 \<rparr>, MISSING)
   \<and> edit_payload sample_env sample_api_message (no_arguments\<lparr>arg_embeds := Given (ManyEmbeds [])\<rparr>)
     = Inr (\<lparr> payload_content = Some ''hello'', payload_tts = Some False,
             payload_attachments = [], payload_embeds = [],
             payload_allowed_mentions = PDict [], payload_message_reference = PDict [],
             payload_components = PList [], payload_flags = Some 0 \<rparr>, MISSING)"
  using C5_edit_keeps_or_clears_embeds
    [where env = sample_env and self = sample_api_message and a = no_arguments
       and c = "PList []"]
  by (simp add: edit_payload_def sample_env_def sample_api_message_def no_arguments_def
      and_then_def edit_flags_def edit_attachments_def edit_files_def files_truth_def
      edit_embeds_def edit_allowed_mentions_def edit_message_reference_def edit_components_def)

text \<open>
  C10, as claimed, for every message: a message with flags 64 and no client
  raises the \<open>LibraryException\<close> with code 13 of line 919, not the one with code
  12.
\<close>

theorem C10_no_client_counterexample:
  "msg_flags (sample_api_message\<lparr>msg_flags := Some 64, msg_client := None\<rparr>) = Some 64
   \<and> edit sample_env (sample_api_message\<lparr>msg_flags := Some 64, msg_client := None\<rparr>) no_arguments
       = ([], Inl (LibraryException 13 None))"
  by (simp add: edit_def edit_payload_def sample_api_message_def)

text \<open>
  C10, amended. For every message that has a client and whose flags equal 64,
  \<open>edit\<close> raises \<open>LibraryException\<close> with code 12 and the message
  "You cannot edit a hidden message!", builds no payload and sends no request.
\<close>

theorem C10_hidden_message_not_edited:
  assumes "msg_client self \<noteq> None" and "msg_flags self = Some 64"
  shows "edit env self a
           = ([], Inl (LibraryException 12 (Some ''You cannot edit a hidden message!'')))
         \<and> edit_payload env self a
           = Inl (LibraryException 12 (Some ''You cannot edit a hidden message!''))"
  using assms by (simp add: edit_def edit_payload_def)

theorem C10_hidden_message_not_edited_witness:
  "msg_client (sample_api_message\<lparr>msg_flags := Some 64\<rparr>) \<noteq> None
   \<and> msg_flags (sample_api_message\<lparr>msg_flags := Some 64\<rparr>) = Some 64
   \<and> edit sample_env (sample_api_message\<lparr>msg_flags := Some 64\<rparr>) no_arguments
       = ([], Inl (LibraryException 12 (Some ''You cannot edit a hidden message!'')))"
  using C10_hidden_message_not_edited
    [where self = "sample_api_message\<lparr>msg_flags := Some 64\<rparr>" and env = sample_env
       and a = no_arguments]
  by (simp add: sample_api_message_def)

end
